theory Spec2Isabelle
  imports Main "HOL-Library.AList" "HOL-Library.Sublist"
begin

section \<open>JavaScript values used by svelte-twoslash.js\<close>

text \<open>
  Strings are character lists; only the two line-break characters matter to the code.
  Numbers are modelled as integers: offsets, line numbers and columns are integers
  wherever the engine and the source map produce them.
\<close>

abbreviation CR :: char where "CR \<equiv> CHR 0x0D"
abbreviation LF :: char where "LF \<equiv> CHR 0x0A"

text \<open>The nullish coalescing operator \<^verbatim>\<open>a ?? b\<close>; \<open>None\<close> is \<^verbatim>\<open>null\<close>/\<^verbatim>\<open>undefined\<close>.\<close>

fun nullish :: "'a option \<Rightarrow> 'a \<Rightarrow> 'a" where
  "nullish None d = d"
| "nullish (Some v) d = v"

text \<open>An array read \<^verbatim>\<open>xs[i]\<close>: outside the array JavaScript gives \<^verbatim>\<open>undefined\<close>.\<close>

definition array_get :: "'a list \<Rightarrow> int \<Rightarrow> 'a option" where
  "array_get xs i = (if 0 \<le> i \<and> i < int (length xs) then Some (xs ! nat i) else None)"

text \<open>
  A \<^verbatim>\<open>Map\<close> keeps its entries in insertion order; \<^verbatim>\<open>set\<close> on a key that is present
  replaces the value in place, on a new key appends the entry. \<open>AList.update\<close> is
  exactly that. \<^verbatim>\<open>new Map(entries)\<close> sets the entries one after the other.
\<close>

type_synonym ('k, 'v) js_map = "('k \<times> 'v) list"

definition map_set :: "'k \<Rightarrow> 'v \<Rightarrow> ('k, 'v) js_map \<Rightarrow> ('k, 'v) js_map" where
  "map_set k v m = AList.update k v m"

definition map_get :: "('k, 'v) js_map \<Rightarrow> 'k \<Rightarrow> 'v option" where
  "map_get m k = map_of m k"

definition map_has :: "('k, 'v) js_map \<Rightarrow> 'k \<Rightarrow> bool" where
  "map_has m k = (map_of m k \<noteq> None)"

definition new_Map :: "('k \<times> 'v) list \<Rightarrow> ('k, 'v) js_map" where
  "new_Map entries = fold (\<lambda>(k, v) m. map_set k v m) entries []"

text \<open>
  \<^verbatim>\<open>text.split(/\r\n?|\n/g)\<close>: the pieces between line terminators, where
  \<^verbatim>\<open>\r\n\<close> is one terminator. The result always has at least one piece.
\<close>

fun cons_first :: "char \<Rightarrow> string list \<Rightarrow> string list" where
  "cons_first c [] = [[c]]"
| "cons_first c (l # ls) = (c # l) # ls"

fun split_lines :: "string \<Rightarrow> string list" where
  "split_lines [] = [[]]"
| "split_lines [c] = (if c = CR \<or> c = LF then [[], []] else [[c]])"
| "split_lines (c # d # ds) =
     (if c = CR \<and> d = LF then [] # split_lines ds
      else if c = CR \<or> c = LF then [] # split_lines (d # ds)
      else cons_first c (split_lines (d # ds)))"

text \<open>\<^verbatim>\<open>lines.join(sep)\<close>.\<close>

fun join :: "string \<Rightarrow> string list \<Rightarrow> string" where
  "join sep [] = []"
| "join sep [l] = l"
| "join sep (l # m # ls) = l @ sep @ join sep (m # ls)"

text \<open>
  \<^verbatim>\<open>xs.indexOf(x, from)\<close> for a start index \<open>from \<ge> 0\<close>: the first index at or after
  \<open>from\<close> that holds \<open>x\<close>, or \<open>-1\<close>.
\<close>

definition indexOf :: "'a list \<Rightarrow> 'a \<Rightarrow> nat \<Rightarrow> int" where
  "indexOf xs x from =
     (case find (\<lambda>i. xs ! i = x) [from..<length xs] of Some i \<Rightarrow> int i | None \<Rightarrow> - 1)"

section \<open>Positions\<close>

record position =
  line :: int
  character :: int

text \<open>
  A result of the analysis engine (a diagnostic or a quick-info): a position with an
  absolute offset \<open>start\<close> and whatever else the engine attached, which the record's
  extension carries. A quick-info has a \<open>targetString\<close>.
\<close>

record info = position +
  start :: int

record quick_info = info +
  targetString :: string

section \<open>The line index\<close>

definition clamp :: "int \<Rightarrow> int \<Rightarrow> int \<Rightarrow> int" where
  "clamp num min_v max_v = max min_v (min max_v num)"

text \<open>
  The scan of \<^verbatim>\<open>get_line_offsets\<close>: \<open>i\<close> is the loop index, the string is the text
  from \<open>i\<close> on. It returns the offsets pushed and the final \<open>is_line_start\<close>.
\<close>

fun get_line_offsets_loop :: "int \<Rightarrow> bool \<Rightarrow> string \<Rightarrow> int list \<times> bool" where
  "get_line_offsets_loop i is_line_start [] = ([], is_line_start)"
| "get_line_offsets_loop i is_line_start [ch] =
     ((if is_line_start then [i] else []), ch = CR \<or> ch = LF)"
| "get_line_offsets_loop i is_line_start (ch # ch' # rest) =
     (let pushed = (if is_line_start then [i] else []);
          is_line_start' = (ch = CR \<or> ch = LF);
          (line_offsets, final) =
            (if ch = CR \<and> ch' = LF then get_line_offsets_loop (i + 2) is_line_start' rest
             else get_line_offsets_loop (i + 1) is_line_start' (ch' # rest))
      in (pushed @ line_offsets, final))"

definition get_line_offsets :: "string \<Rightarrow> int list" where
  "get_line_offsets text =
     (let (line_offsets, is_line_start) = get_line_offsets_loop 0 True text
      in if is_line_start \<and> length text > 0 then line_offsets @ [int (length text)]
         else line_offsets)"

text \<open>
  \<^verbatim>\<open>offset_at\<close>. Both array reads are inside the array: the two tests before them
  leave \<open>0 \<le> line < length\<close>, and the second read is guarded by its own test.
\<close>

definition offset_at :: "position \<Rightarrow> string \<Rightarrow> int list \<Rightarrow> int" where
  "offset_at position text line_offsets =
     (if line position \<ge> int (length line_offsets) then int (length text)
      else if line position < 0 then 0
      else
        let line_offset = line_offsets ! nat (line position);
            next_line_offset =
              (if line position + 1 < int (length line_offsets)
               then line_offsets ! nat (line position + 1)
               else int (length text))
        in clamp next_line_offset line_offset (line_offset + character position))"

text \<open>
  The binary search of \<^verbatim>\<open>position_at\<close>. \<open>high\<close> starts at the array's length, so
  \<open>mid\<close> can be one past the end: the read is then \<^verbatim>\<open>undefined\<close>, both comparisons
  are false and the search goes left. The loop ends either at the \<^verbatim>\<open>return\<close> inside
  it (\<open>Inl mid\<close>) or by its test (\<open>Inr low\<close>).
\<close>

function position_at_loop :: "int list \<Rightarrow> int \<Rightarrow> int \<Rightarrow> int \<Rightarrow> int + int" where
  "position_at_loop line_offsets offset low high =
     (if low \<le> high then
        (let mid = (low + high) div 2 in
         case array_get line_offsets mid of
           None \<Rightarrow> position_at_loop line_offsets offset low (mid - 1)
         | Some line_offset \<Rightarrow>
             if line_offset = offset then Inl mid
             else if offset > line_offset then position_at_loop line_offsets offset (mid + 1) high
             else position_at_loop line_offsets offset low (mid - 1))
      else Inr low)"
  by pat_completeness auto
termination
  by (relation "measure (\<lambda>(line_offsets, offset, low, high). nat (high - low + 1))") auto

text \<open>
  After the loop \<^verbatim>\<open>position_at\<close> reads \<^verbatim>\<open>line_offsets[low - 1]\<close>. Outside the array
  that read is \<^verbatim>\<open>undefined\<close> and the character becomes \<^verbatim>\<open>NaN\<close>, which is no integer:
  the model returns the error \<open>NaN_character line\<close> there.
\<close>

datatype error = NaN_character int

definition position_at :: "int \<Rightarrow> string \<Rightarrow> int list \<Rightarrow> error + position" where
  "position_at offset0 text line_offsets =
     (let offset = clamp offset0 0 (int (length text));
          low = 0;
          high = int (length line_offsets)
      in if high = 0 then Inr \<lparr>line = 0, character = offset\<rparr>
         else
           case position_at_loop line_offsets offset low high of
             Inl mid \<Rightarrow> Inr \<lparr>line = mid, character = 0\<rparr>
           | Inr low' \<Rightarrow>
               (let line_v = low' - 1 in
                case array_get line_offsets line_v of
                  None \<Rightarrow> Inl (NaN_character line_v)
                | Some line_offset \<Rightarrow> Inr \<lparr>line = line_v, character = offset - line_offset\<rparr>))"

section \<open>The line aligner\<close>

text \<open>
  The walk of \<^verbatim>\<open>check_removed_lines\<close> over the lines of the second text: \<open>index\<close> is
  the loop index, the list holds the lines from \<open>index\<close> on. A line that is not found
  ends the walk (\<^verbatim>\<open>break\<close>).
\<close>

fun check_removed_lines_loop ::
  "string list \<Rightarrow> nat \<Rightarrow> nat \<Rightarrow> string list \<Rightarrow> (int, int) js_map \<Rightarrow> (int, int) js_map" where
  "check_removed_lines_loop svelte2tsx_lines svelte2tsxIndex index [] generated_to_original =
     generated_to_original"
| "check_removed_lines_loop svelte2tsx_lines svelte2tsxIndex index
       (twoslash_result_line # rest) generated_to_original =
     (let correspond_index = indexOf svelte2tsx_lines twoslash_result_line svelte2tsxIndex
      in if correspond_index < 0 then generated_to_original
         else check_removed_lines_loop svelte2tsx_lines (nat correspond_index) (index + 1) rest
                (map_set (int index) correspond_index generated_to_original))"

text \<open>
  The object \<^verbatim>\<open>check_removed_lines\<close> returns. Its method \<^verbatim>\<open>get_removed_lines\<close> takes
  no argument and reads only the closure, so the field holds the list it returns.
\<close>

record removed_lines_map =
  generated_to_original :: "(int, int) js_map"
  original_to_generated :: "(int, int) js_map"
  get_removed_lines :: "int list"

definition check_removed_lines :: "string \<Rightarrow> string \<Rightarrow> removed_lines_map" where
  "check_removed_lines svelte2tsx_code two_slash_result =
     (let svelte2tsx_lines = split_lines svelte2tsx_code;
          two_slash_result_lines = split_lines two_slash_result;
          g2o = check_removed_lines_loop svelte2tsx_lines 0 0 two_slash_result_lines [];
          o2g = new_Map (map (\<lambda>(generated, original). (original, generated)) g2o)
      in \<lparr>generated_to_original = g2o,
          original_to_generated = o2g,
          get_removed_lines =
            map int (filter (\<lambda>index. \<not> map_has o2g (int index)) [0..<length svelte2tsx_lines])\<rparr>)"

section \<open>The source-map bridge and the line mappers\<close>

text \<open>
  The consumer of the source map belongs to a library: \<^verbatim>\<open>originalPositionFor\<close> is a
  parameter, a function from a one-based line and a column to a line and a column that
  may each be \<^verbatim>\<open>null\<close>. \<open>create_source_mapper consumer\<close> is the function
  \<^verbatim>\<open>map_to_original_position\<close> that \<^verbatim>\<open>create_source_mapper\<close> returns; where the code
  passes it on, the definitions below call it \<open>bridge\<close>, since the line mapper has a
  method of the same name.
\<close>

type_synonym source_map_consumer = "int \<Rightarrow> int \<Rightarrow> int option \<times> int option"

definition create_source_mapper :: "source_map_consumer \<Rightarrow> position \<Rightarrow> position" where
  "create_source_mapper originalPositionFor position =
     (let one_based_position = originalPositionFor (line position + 1) (character position)
      in \<lparr>line = nullish (fst one_based_position) 0 - 1,
          character = nullish (snd one_based_position) 0\<rparr>)"

record remove_line_mapper =
  map_to_generated_position :: "position \<Rightarrow> position"
  map_to_original_position :: "position \<Rightarrow> position"

definition create_remove_line_mapper :: "removed_lines_map \<Rightarrow> remove_line_mapper" where
  "create_remove_line_mapper m =
     \<lparr>map_to_generated_position = (\<lambda>position.
        let generated_line = map_get (original_to_generated m) (line position)
        in \<lparr>line = nullish generated_line (- 1), character = character position\<rparr>),
      map_to_original_position = (\<lambda>position.
        let line_v = map_get (generated_to_original m) (line position)
        in \<lparr>line = nullish line_v (- 1), character = character position\<rparr>)\<rparr>"

definition remove_lines_from_source :: "string \<Rightarrow> int list \<Rightarrow> string" where
  "remove_lines_from_source source removed_lines =
     (if length removed_lines = 0 then source
      else
        let source_lines = split_lines source
        in join [LF]
             (map snd (filter (\<lambda>(index, _). \<not> List.member removed_lines (int index))
                         (enumerate 0 source_lines))))"

section \<open>The diagnostics interceptor\<close>

text \<open>
  What \<^verbatim>\<open>decorate_ts\<close> uses of the language service it wraps: the diagnostics of a
  file (each with its \<open>diagnostic_start\<close>, the field \<^verbatim>\<open>start\<close>, an integer offset), and
  the full text of the program's source file, \<open>None\<close> when
  \<^verbatim>\<open>ls.getProgram()?.getSourceFile(filename)\<close> is \<^verbatim>\<open>undefined\<close>.
\<close>

record diagnostic =
  diagnostic_start :: int

record 'd language_service =
  getSemanticDiagnostics :: "string \<Rightarrow> 'd diagnostic_scheme list"
  getSourceFile :: "string \<Rightarrow> string option"

text \<open>
  The test of \<^verbatim>\<open>errors.filter\<close>. The error of \<open>position_at\<close> is passed on: the
  consumer would be asked for a column that is no number.
\<close>

definition keep_diagnostic ::
  "string \<Rightarrow> int list \<Rightarrow> (position \<Rightarrow> position) \<Rightarrow> remove_line_mapper \<Rightarrow>
   'd diagnostic_scheme \<Rightarrow> error + bool" where
  "keep_diagnostic generated generated_offset bridge mapper e =
     (case position_at (diagnostic_start e) generated generated_offset of
        Inl err \<Rightarrow> Inl err
      | Inr position \<Rightarrow>
          (let original_position = bridge (map_to_original_position mapper position)
           in Inr (line original_position > 0 \<and> character original_position \<ge> 0)))"

fun filter_diagnostics :: "('a \<Rightarrow> error + bool) \<Rightarrow> 'a list \<Rightarrow> error + 'a list" where
  "filter_diagnostics p [] = Inr []"
| "filter_diagnostics p (e # es) =
     (case p e of
        Inl err \<Rightarrow> Inl err
      | Inr keep \<Rightarrow>
          (case filter_diagnostics p es of
             Inl err \<Rightarrow> Inl err
           | Inr result \<Rightarrow> Inr (if keep then e # result else result)))"

text \<open>The \<^verbatim>\<open>getSemanticDiagnostics\<close> that \<^verbatim>\<open>decorate_ts\<close> installs on the service.\<close>

definition decorate_ts ::
  "string \<Rightarrow> (position \<Rightarrow> position) \<Rightarrow> 'd language_service \<Rightarrow> string \<Rightarrow>
   error + 'd diagnostic_scheme list" where
  "decorate_ts generated bridge ls filename =
     (let generated_offset = get_line_offsets generated;
          errors = getSemanticDiagnostics ls filename
      in case getSourceFile ls filename of
           None \<Rightarrow> Inr errors
         | Some full_text \<Rightarrow>
             (let removed = check_removed_lines generated full_text;
                  remove_line_mapper = create_remove_line_mapper removed
              in filter_diagnostics
                   (keep_diagnostic generated generated_offset bridge remove_line_mapper) errors))"

section \<open>The orchestrator\<close>

text \<open>
  The two collaborators are parameters. \<^verbatim>\<open>svelte2tsx\<close> returns the rewritten code and
  its source map, the latter taken as the consumer built from it. \<^verbatim>\<open>runTwoSlash\<close>
  receives the generated text and the patched compiler module (here: the diagnostics
  function \<^verbatim>\<open>decorate_ts\<close> installs) and returns its code, quick-infos and errors; the
  record's extension holds the fields that \<^verbatim>\<open>...twoslash\<close> passes through. The
  module constant \<^verbatim>\<open>svelte_tsx_files\<close>, three paths resolved against the place where
  the rewriter is installed, is a parameter as well.
\<close>

record svelte2tsx_return =
  tsx_code :: string
  tsx_map :: source_map_consumer

record ('q, 'e) twoslash_return =
  code :: string
  staticQuickInfos :: "'q quick_info_scheme list"
  errors :: "'e info_scheme list"

definition map_two_slash_info ::
  "(position \<Rightarrow> position) \<Rightarrow> string \<Rightarrow> 'a info_scheme \<Rightarrow> int list \<Rightarrow> 'a info_scheme" where
  "map_two_slash_info mapper source position line_offsets =
     (let original_position = mapper \<lparr>line = line position, character = character position\<rparr>;
          offset = offset_at original_position source line_offsets
      in position\<lparr>line := line original_position,
                  character := character original_position,
                  start := offset\<rparr>)"

text \<open>
  The body of the loop of \<^verbatim>\<open>map_info_to_result\<close>, one definition for each of its two
  results; the first arguments are the variables of \<^verbatim>\<open>run_svelte_twoSlash\<close> that the
  generator closes over.
\<close>

definition info_with_original_position ::
  "remove_line_mapper \<Rightarrow> int \<Rightarrow> (position \<Rightarrow> position) \<Rightarrow> string \<Rightarrow> int list \<Rightarrow>
   'a info_scheme \<Rightarrow> 'a info_scheme" where
  "info_with_original_position remove_line_mapper prepend_lines bridge source line_offsets info =
     (let line_before_line_removed =
            line (map_to_original_position remove_line_mapper
                    \<lparr>line = line info, character = character info\<rparr>);
          line_without_prepend_lines = line_before_line_removed - prepend_lines
      in map_two_slash_info bridge source (info\<lparr>line := line_without_prepend_lines\<rparr>) line_offsets)"

definition info_with_processed_position ::
  "remove_line_mapper \<Rightarrow> int \<Rightarrow> (position \<Rightarrow> position) \<Rightarrow> string \<Rightarrow> int list \<Rightarrow>
   remove_line_mapper \<Rightarrow> string \<Rightarrow> int list \<Rightarrow> 'a info_scheme \<Rightarrow> 'a info_scheme" where
  "info_with_processed_position remove_line_mapper prepend_lines bridge source line_offsets
       source_remove_line_mapper processed processed_line_offsets info =
     map_two_slash_info (map_to_generated_position source_remove_line_mapper) processed
       (info_with_original_position remove_line_mapper prepend_lines bridge source line_offsets info)
       processed_line_offsets"

fun map_info_to_result ::
  "remove_line_mapper \<Rightarrow> int \<Rightarrow> (position \<Rightarrow> position) \<Rightarrow> string \<Rightarrow> int list \<Rightarrow>
   remove_line_mapper \<Rightarrow> string \<Rightarrow> int list \<Rightarrow> 'a info_scheme list \<Rightarrow> 'a info_scheme list" where
  "map_info_to_result remove_line_mapper prepend_lines bridge source line_offsets
       source_remove_line_mapper processed processed_line_offsets [] = []"
| "map_info_to_result remove_line_mapper prepend_lines bridge source line_offsets
       source_remove_line_mapper processed processed_line_offsets (info # infoList) =
     (if line info > 0 \<and> character info > 0
      then [info_with_processed_position remove_line_mapper prepend_lines bridge source
              line_offsets source_remove_line_mapper processed processed_line_offsets info]
      else [])
     @ map_info_to_result remove_line_mapper prepend_lines bridge source line_offsets
         source_remove_line_mapper processed processed_line_offsets infoList"

definition reference_line :: "string \<Rightarrow> string" where
  "reference_line file = ''/// <reference path='' @ [CHR 0x22] @ file @ [CHR 0x22] @ '' />'' @ [LF]"

definition run_svelte_twoSlash ::
  "(string \<Rightarrow> svelte2tsx_return) \<Rightarrow> string list \<Rightarrow>
   (string \<Rightarrow> ('d language_service \<Rightarrow> string \<Rightarrow> error + 'd diagnostic_scheme list) \<Rightarrow>
      ('q, 'e, 'z) twoslash_return_scheme) \<Rightarrow>
   string \<Rightarrow> ('q, 'e, 'z) twoslash_return_scheme" where
  "run_svelte_twoSlash svelte2tsx svelte_tsx_files runTwoSlash source =
     (let code_v = svelte2tsx source;
          line_offsets = get_line_offsets source;
          generated = concat (map reference_line svelte_tsx_files) @ tsx_code code_v;
          prepend_lines = int (length svelte_tsx_files);
          bridge = create_source_mapper (tsx_map code_v);
          twoslash = runTwoSlash generated (decorate_ts generated bridge);
          remove_lines_map = check_removed_lines generated (code twoslash);
          removed_lines = get_removed_lines remove_lines_map;
          remove_line_mapper = create_remove_line_mapper remove_lines_map;
          source_removed_lines =
            map (\<lambda>line_v. line (bridge \<lparr>line = line_v - prepend_lines, character = 0\<rparr>))
              removed_lines;
          processed = remove_lines_from_source source source_removed_lines;
          source_remove_line_map = check_removed_lines source processed;
          processed_line_offsets = get_line_offsets processed;
          source_remove_line_mapper = create_remove_line_mapper source_remove_line_map;
          static_quick_infos =
            filter (\<lambda>info. targetString info \<noteq> ''render'')
              (map_info_to_result remove_line_mapper prepend_lines bridge source line_offsets
                 source_remove_line_mapper processed processed_line_offsets
                 (staticQuickInfos twoslash));
          errors_v =
            map_info_to_result remove_line_mapper prepend_lines bridge source line_offsets
              source_remove_line_mapper processed processed_line_offsets (errors twoslash)
      in twoslash\<lparr>staticQuickInfos := static_quick_infos, errors := errors_v, code := processed\<rparr>)"

section \<open>The orchestrator of the older revision\<close>

text \<open>
  The repository holds an older revision of the same file, with the names in camel case.
  Its helper functions are the ones above under other names; its \<^verbatim>\<open>runSvelteTwoSlash\<close>
  differs: the reference lines are prepended one by one, the diagnostics function is
  written in place, and the results are mapped by \<^verbatim>\<open>map\<close>, \<^verbatim>\<open>filter\<close>, \<^verbatim>\<open>map\<close>.
\<close>

definition prependLine :: "string \<Rightarrow> string \<Rightarrow> string" where
  "prependLine line_v generated = line_v @ [LF] @ generated"

definition runSvelteTwoSlash ::
  "(string \<Rightarrow> svelte2tsx_return) \<Rightarrow> string list \<Rightarrow>
   (string \<Rightarrow> ('d language_service \<Rightarrow> string \<Rightarrow> error + 'd diagnostic_scheme list) \<Rightarrow>
      ('q, 'e, 'z) twoslash_return_scheme) \<Rightarrow>
   string \<Rightarrow> ('q, 'e, 'z) twoslash_return_scheme" where
  "runSvelteTwoSlash svelte2tsx svelteTsxFiles runTwoSlash source =
     (let code_v = svelte2tsx source;
          lineOffsets = get_line_offsets source;
          generated =
            fold (\<lambda>path. prependLine (''/// <reference path='' @ [CHR 0x22] @ path @ [CHR 0x22] @ '' />''))
              svelteTsxFiles (tsx_code code_v);
          prependLines = int (length svelteTsxFiles);
          mapToOriginalPosition = create_source_mapper (tsx_map code_v);
          twoslash = runTwoSlash generated (decorate_ts generated mapToOriginalPosition);
          removeLinesMap = check_removed_lines generated (code twoslash);
          removedLines = get_removed_lines removeLinesMap;
          removeLineMapper = create_remove_line_mapper removeLinesMap;
          sourceRemovedLines =
            map (\<lambda>line_v. line (mapToOriginalPosition
                                  \<lparr>line = line_v - prependLines, character = 0\<rparr>))
              removedLines;
          processed = remove_lines_from_source source sourceRemovedLines;
          sourceRemoveLineMap = check_removed_lines source processed;
          processedLineOffsets = get_line_offsets processed;
          sourceRemoveLineMapper = create_remove_line_mapper sourceRemoveLineMap;
          staticQuickInfos_v =
            map (\<lambda>quickInfo.
                   map_two_slash_info (map_to_generated_position sourceRemoveLineMapper) processed
                     quickInfo processedLineOffsets)
              (filter (\<lambda>info. line info > 0 \<and> character info > 0 \<and> targetString info \<noteq> ''render'')
                 (map (\<lambda>quickInfo.
                         map_two_slash_info mapToOriginalPosition source
                           (quickInfo\<lparr>line :=
                              line (map_to_original_position removeLineMapper
                                      \<lparr>line = line quickInfo, character = character quickInfo\<rparr>)
                              - prependLines\<rparr>)
                           lineOffsets)
                    (staticQuickInfos twoslash)));
          errors_v =
            map (\<lambda>quickInfo.
                   map_two_slash_info (map_to_generated_position sourceRemoveLineMapper) processed
                     quickInfo processedLineOffsets)
              (filter (\<lambda>info. line info > 0 \<and> character info > 0)
                 (map (\<lambda>error.
                         map_two_slash_info mapToOriginalPosition source
                           (error\<lparr>line :=
                              line (map_to_original_position removeLineMapper
                                      \<lparr>line = line error - prependLines,
                                       character = character error\<rparr>)
                              - prependLines\<rparr>)
                           lineOffsets)
                    (errors twoslash)))
      in twoslash\<lparr>staticQuickInfos := staticQuickInfos_v, errors := errors_v, code := processed\<rparr>)"

section \<open>The order of the stages as the specification words it\<close>

text \<open>
  The specification lists the stages a result goes through as: (a) subtract the number
  of prepended lines, (b) the alignment from the engine's code to the generated text,
  (c) the source-map bridge, (d) the offset in the original document; and keeps a result
  when the mapped position has \<open>line > 0\<close> and \<open>character > 0\<close>. These two definitions
  follow those words, to be compared with \<open>info_with_original_position\<close> and
  \<open>map_info_to_result\<close>.
\<close>

definition spec_map_result ::
  "int \<Rightarrow> (int, int) js_map \<Rightarrow> (position \<Rightarrow> position) \<Rightarrow> string \<Rightarrow> 'a info_scheme \<Rightarrow>
   'a info_scheme" where
  "spec_map_result prepend_lines g2o bridge source info =
     (let a = line info - prepend_lines;
          b = nullish (map_get g2o a) (- 1);
          c = bridge \<lparr>line = b, character = character info\<rparr>;
          d = offset_at c source (get_line_offsets source)
      in info\<lparr>line := line c, character := character c, start := d\<rparr>)"

definition spec_results ::
  "int \<Rightarrow> (int, int) js_map \<Rightarrow> (position \<Rightarrow> position) \<Rightarrow> string \<Rightarrow> 'a info_scheme list \<Rightarrow>
   'a info_scheme list" where
  "spec_results prepend_lines g2o bridge source infoList =
     filter (\<lambda>r. line r > 0 \<and> character r > 0)
       (map (spec_map_result prepend_lines g2o bridge source) infoList)"

section \<open>A worked input\<close>

text \<open>
  A document of four lines whose second line is an annotation comment. The rewriter is
  taken to return the document as it is, with the identity source map (no entry for a
  line before the first). The engine cuts the annotation line (line 4 of the generated
  text, after the three reference lines) out of the code it returns, and reports two
  errors against that code: one at line 1, inside the reference lines, and one at
  line 5, on the last line of the document.
\<close>

definition example_source :: string where
  "example_source = ''<s>'' @ [LF] @ ''// @e'' @ [LF] @ ''let a'' @ [LF] @ ''a = b''"

definition example_svelte2tsx :: "string \<Rightarrow> svelte2tsx_return" where
  "example_svelte2tsx source =
     \<lparr>tsx_code = source,
      tsx_map = (\<lambda>l c. if 1 \<le> l then (Some l, Some c) else (None, None))\<rparr>"

definition example_files :: "string list" where
  "example_files = [''shims'', ''jsx'', ''native'']"

definition example_errors :: "info list" where
  "example_errors =
     [\<lparr>line = 1, character = 1, start = 32\<rparr>, \<lparr>line = 5, character = 1, start = 104\<rparr>]"

definition example_runTwoSlash ::
  "string \<Rightarrow> (unit language_service \<Rightarrow> string \<Rightarrow> error + unit diagnostic_scheme list) \<Rightarrow>
   (unit, unit) twoslash_return" where
  "example_runTwoSlash generated tsModule =
     \<lparr>code = remove_lines_from_source generated [4],
      staticQuickInfos = [],
      errors = example_errors\<rparr>"

definition example_generated :: string where
  "example_generated = concat (map reference_line example_files) @ example_source"

definition example_processed :: string where
  "example_processed = ''<s>'' @ [LF] @ ''let a'' @ [LF] @ ''a = b''"

text \<open>
  An engine that returns the code it was given, with no result: it removes no line.
\<close>

definition echo_runTwoSlash ::
  "string \<Rightarrow> (unit language_service \<Rightarrow> string \<Rightarrow> error + unit diagnostic_scheme list) \<Rightarrow>
   (unit, unit) twoslash_return" where
  "echo_runTwoSlash generated tsModule =
     \<lparr>code = generated, staticQuickInfos = [], errors = []\<rparr>"


section \<open>Invariant of the binary search\<close>

text \<open>
  What holds of \<open>low\<close> and \<open>high\<close> at every test of the loop of \<^verbatim>\<open>position_at\<close> on a
  sorted table: every entry before \<open>low\<close> is below the offset, every entry after \<open>high\<close>
  is above it.
\<close>

definition search_inv :: "int list \<Rightarrow> int \<Rightarrow> int \<Rightarrow> int \<Rightarrow> bool" where
  "search_inv tbl offset low high \<longleftrightarrow>
     0 \<le> low \<and> low \<le> high + 1 \<and> high \<le> int (length tbl) \<and> low \<le> int (length tbl) \<and>
     (\<forall>k. 0 \<le> k \<and> k < low \<longrightarrow> tbl ! nat k < offset) \<and>
     (\<forall>k. high < k \<and> k < int (length tbl) \<longrightarrow> offset < tbl ! nat k)"

section \<open>Splitting and joining lines\<close>

lemma cons_first_set:
  "c \<noteq> CR \<Longrightarrow> c \<noteq> LF \<Longrightarrow> \<forall>l\<in>set ls. CR \<notin> set l \<and> LF \<notin> set l \<Longrightarrow>
   \<forall>l\<in>set (cons_first c ls). CR \<notin> set l \<and> LF \<notin> set l"
  by (cases ls) auto

lemma split_lines_no_break: "\<forall>l\<in>set (split_lines t). CR \<notin> set l \<and> LF \<notin> set l"
proof (induction t rule: split_lines.induct)
  case 1
  then show ?case by simp
next
  case (2 c)
  then show ?case by auto
next
  case (3 c d ds)
  show ?case
  proof (cases "c = CR \<and> d = LF")
    case True
    with 3 show ?thesis by simp
  next
    case nocrlf: False
    show ?thesis
    proof (cases "c = CR \<or> c = LF")
      case True
      with nocrlf 3 show ?thesis by simp
    next
      case False
      then have "\<forall>l\<in>set (cons_first c (split_lines (d # ds))). CR \<notin> set l \<and> LF \<notin> set l"
        using 3(3) nocrlf by (intro cons_first_set) auto
      with False nocrlf show ?thesis by simp
    qed
  qed
qed

lemma split_lines_nonempty: "split_lines t \<noteq> []"
  by (induction t rule: split_lines.induct) (auto simp: neq_Nil_conv elim: cons_first.elims)

lemma join_set: "set (join sep ls) \<subseteq> set sep \<union> \<Union>(set ` set ls)"
  by (induction sep ls rule: join.induct) auto

lemma join_count_LF:
  "\<forall>l\<in>set ls. LF \<notin> set l \<Longrightarrow> length (filter (\<lambda>c. c = LF) (join [LF] ls)) = length ls - 1"
proof (induction "[LF]" ls rule: join.induct)
  case 1
  then show ?case by simp
next
  case (2 l)
  then have "filter (\<lambda>c. c = LF) l = []" by (auto simp: filter_empty_conv)
  then show ?case by simp
next
  case (3 l m ls)
  then have "filter (\<lambda>c. c = LF) l = []" by (auto simp: filter_empty_conv)
  with 3 show ?case by simp
qed

lemma split_lines_plain: "CR \<notin> set l \<Longrightarrow> LF \<notin> set l \<Longrightarrow> split_lines l = [l]"
  by (induction l rule: split_lines.induct) auto

lemma split_lines_LF_Cons: "split_lines (LF # t) = [] # split_lines t"
  by (cases t) auto

lemma split_lines_plain_Cons:
  "c \<noteq> CR \<Longrightarrow> c \<noteq> LF \<Longrightarrow> split_lines (c # t) = cons_first c (split_lines t)"
  by (cases t) auto

lemma split_lines_append_LF:
  "CR \<notin> set l \<Longrightarrow> LF \<notin> set l \<Longrightarrow> split_lines (l @ LF # t) = l # split_lines t"
proof (induction l)
  case Nil
  then show ?case by (simp add: split_lines_LF_Cons)
next
  case (Cons c l)
  then have "split_lines ((c # l) @ LF # t) = cons_first c (split_lines (l @ LF # t))"
    using split_lines_plain_Cons[of c "l @ LF # t"] by auto
  with Cons show ?case by simp
qed

lemma split_lines_join:
  "ls \<noteq> [] \<Longrightarrow> \<forall>l\<in>set ls. CR \<notin> set l \<and> LF \<notin> set l \<Longrightarrow> split_lines (join [LF] ls) = ls"
proof (induction "[LF]" ls rule: join.induct)
  case 1
  then show ?case by simp
next
  case (2 l)
  then show ?case by (simp add: split_lines_plain)
next
  case (3 l m ls)
  then show ?case by (simp add: split_lines_append_LF)
qed

lemma filter_enumerate_nths:
  "map snd (filter (\<lambda>(index, _). P index) (enumerate n xs)) = nths xs {i. P (i + n)}"
proof (induction xs arbitrary: n)
  case Nil
  then show ?case by simp
next
  case (Cons x xs)
  show ?case using Cons[of "Suc n"] by (simp add: nths_Cons)
qed


lemma remove_lines_from_source_join:
  "removed_lines \<noteq> [] \<Longrightarrow>
   remove_lines_from_source source removed_lines =
     join [LF] (nths (split_lines source) {i. int i \<notin> set removed_lines})"
  using filter_enumerate_nths[of "\<lambda>i. int i \<notin> set removed_lines" 0 "split_lines source"]
  by (simp add: remove_lines_from_source_def)

lemma nths_UNIV: "nths xs UNIV = xs"
  by (rule nths_all) simp

section \<open>The line-offset table and the binary search\<close>

lemma get_line_offsets_loop_props:
  "get_line_offsets_loop i flag t = (offs, fin) \<Longrightarrow>
   sorted_wrt (<) offs \<and> (\<forall>x\<in>set offs. i \<le> x \<and> x < i + int (length t)) \<and>
   (flag \<and> t \<noteq> [] \<longrightarrow> offs \<noteq> [] \<and> hd offs = i)"
proof (induction i flag t arbitrary: offs fin rule: get_line_offsets_loop.induct)
  case (1 i is_line_start)
  then show ?case by simp
next
  case (2 i is_line_start ch)
  then show ?case by auto
next
  case (3 i is_line_start ch ch' rest)
  show ?case
  proof (cases "ch = CR \<and> ch' = LF")
    case True
    obtain offs' fin' where r: "get_line_offsets_loop (i + 2) (ch = CR \<or> ch = LF) rest = (offs', fin')"
      by (cases "get_line_offsets_loop (i + 2) (ch = CR \<or> ch = LF) rest") auto
    have ih: "sorted_wrt (<) offs' \<and> (\<forall>x\<in>set offs'. i + 2 \<le> x \<and> x < i + 2 + int (length rest))"
      using "3.IH"(1)[OF refl refl True r] by simp
    have offs: "offs = (if is_line_start then [i] else []) @ offs'"
      using "3.prems" True r by (simp add: Let_def)
    show ?thesis using ih unfolding offs by (auto simp: sorted_wrt_append)
  next
    case False
    obtain offs' fin' where r: "get_line_offsets_loop (i + 1) (ch = CR \<or> ch = LF) (ch' # rest) = (offs', fin')"
      by (cases "get_line_offsets_loop (i + 1) (ch = CR \<or> ch = LF) (ch' # rest)") auto
    have ih: "sorted_wrt (<) offs' \<and> (\<forall>x\<in>set offs'. i + 1 \<le> x \<and> x < i + 1 + int (length (ch' # rest)))"
      using "3.IH"(2)[OF refl refl False r] by simp
    have offs: "offs = (if is_line_start then [i] else []) @ offs'"
      using "3.prems" False r by (auto simp: Let_def)
    show ?thesis using ih unfolding offs by (auto simp: sorted_wrt_append)
  qed
qed

lemma get_line_offsets_sorted: "sorted_wrt (<) (get_line_offsets t)"
proof -
  obtain offs fin where r: "get_line_offsets_loop 0 True t = (offs, fin)"
    by (cases "get_line_offsets_loop 0 True t") auto
  from get_line_offsets_loop_props[OF r] show ?thesis
    by (auto simp: get_line_offsets_def r sorted_wrt_append)
qed

lemma get_line_offsets_range: "x \<in> set (get_line_offsets t) \<Longrightarrow> 0 \<le> x \<and> x \<le> int (length t)"
proof -
  obtain offs fin where r: "get_line_offsets_loop 0 True t = (offs, fin)"
    by (cases "get_line_offsets_loop 0 True t") auto
  assume "x \<in> set (get_line_offsets t)"
  with get_line_offsets_loop_props[OF r] show ?thesis
    by (auto simp: get_line_offsets_def r split: if_splits)
qed

lemma get_line_offsets_Nil: "get_line_offsets [] = []"
  by (simp add: get_line_offsets_def)

lemma get_line_offsets_first:
  "t \<noteq> [] \<Longrightarrow> get_line_offsets t \<noteq> [] \<and> get_line_offsets t ! 0 = 0"
proof -
  obtain offs fin where r: "get_line_offsets_loop 0 True t = (offs, fin)"
    by (cases "get_line_offsets_loop 0 True t") auto
  assume "t \<noteq> []"
  with get_line_offsets_loop_props[OF r] have "offs \<noteq> [] \<and> hd offs = 0" by simp
  then show ?thesis
    by (auto simp: get_line_offsets_def r hd_conv_nth nth_append)
qed


lemma sorted_table_less:
  "sorted_wrt (<) tbl \<Longrightarrow> 0 \<le> j \<Longrightarrow> j < k \<Longrightarrow> k < int (length tbl) \<Longrightarrow>
   tbl ! nat j < (tbl ! nat k :: int)"
  by (simp add: sorted_wrt_iff_nth_less)

lemma sorted_table_le:
  "sorted_wrt (<) tbl \<Longrightarrow> 0 \<le> j \<Longrightarrow> j \<le> k \<Longrightarrow> k < int (length tbl) \<Longrightarrow>
   tbl ! nat j \<le> (tbl ! nat k :: int)"
  using sorted_table_less[of tbl j k] by (cases "j = k") auto

lemma position_at_loop_correct:
  "sorted_wrt (<) tbl \<Longrightarrow> search_inv tbl offset low high \<Longrightarrow>
    (case position_at_loop tbl offset low high of
       Inl mid \<Rightarrow> 0 \<le> mid \<and> mid < int (length tbl) \<and> tbl ! nat mid = offset
     | Inr low' \<Rightarrow> search_inv tbl offset low' (low' - 1))"
proof (induction tbl offset low high rule: position_at_loop.induct)
  case (1 line_offsets offset low high)
  note srt = "1.prems"(1) and inv = "1.prems"(2)
  show ?case
  proof (cases "low \<le> high")
    case False
    then have "high = low - 1" using inv by (simp add: search_inv_def)
    with False inv show ?thesis by (subst position_at_loop.simps) simp
  next
    case True
    define mid where "mid = (low + high) div 2"
    have mid: "low \<le> mid" "mid \<le> high" "0 \<le> mid" "mid \<le> int (length line_offsets)"
      using True inv by (auto simp: mid_def search_inv_def)
    show ?thesis
    proof (cases "array_get line_offsets mid")
      case None
      then have "mid = int (length line_offsets)"
        using mid by (auto simp: array_get_def split: if_splits)
      then have "search_inv line_offsets offset low (mid - 1)"
        using inv mid by (auto simp: search_inv_def)
      from "1.IH"(1)[OF True mid_def None srt this] True None show ?thesis
        by (subst position_at_loop.simps) (simp add: mid_def[symmetric])
    next
      case (Some line_offset)
      then have lo: "mid < int (length line_offsets)" "line_offset = line_offsets ! nat mid"
        by (auto simp: array_get_def split: if_splits)
      consider (eq) "line_offset = offset" | (gt) "offset > line_offset" | (lt) "offset < line_offset"
        by linarith
      then show ?thesis
      proof cases
        case eq
        with True Some lo mid show ?thesis
          by (subst position_at_loop.simps) (simp add: mid_def[symmetric])
      next
        case gt
        have "\<forall>k. 0 \<le> k \<and> k < mid + 1 \<longrightarrow> line_offsets ! nat k < offset"
        proof (intro allI impI)
          fix k assume k: "0 \<le> k \<and> k < mid + 1"
          then have "line_offsets ! nat k \<le> line_offsets ! nat mid"
            using sorted_table_le[OF srt, of k mid] lo by simp
          with gt lo show "line_offsets ! nat k < offset" by simp
        qed
        then have "search_inv line_offsets offset (mid + 1) high"
          using inv mid lo by (auto simp: search_inv_def)
        from "1.IH"(2)[OF True mid_def Some _ gt srt this] gt True Some show ?thesis
          by (subst position_at_loop.simps) (simp add: mid_def[symmetric])
      next
        case lt
        have "\<forall>k. mid - 1 < k \<and> k < int (length line_offsets) \<longrightarrow> offset < line_offsets ! nat k"
        proof (intro allI impI)
          fix k assume k: "mid - 1 < k \<and> k < int (length line_offsets)"
          then have "line_offsets ! nat mid \<le> line_offsets ! nat k"
            using sorted_table_le[OF srt, of mid k] mid by simp
          with lt lo show "offset < line_offsets ! nat k" by simp
        qed
        then have "search_inv line_offsets offset low (mid - 1)"
          using inv mid by (auto simp: search_inv_def)
        from "1.IH"(3)[OF True mid_def Some _ _ srt this] lt True Some show ?thesis
          by (subst position_at_loop.simps) (simp add: mid_def[symmetric])
      qed
    qed
  qed
qed


lemma position_at_own_table:
  fixes t :: string
  defines "tbl \<equiv> get_line_offsets t" and "len \<equiv> int (length t)"
  shows "\<exists>p. position_at offset t tbl = Inr p \<and>
     (if t = [] then p = \<lparr>line = 0, character = 0\<rparr>
      else 0 \<le> line p \<and> line p < int (length tbl) \<and>
           tbl ! nat (line p) \<le> clamp offset 0 len \<and>
           character p = clamp offset 0 len - tbl ! nat (line p) \<and>
           (line p + 1 < int (length tbl) \<longrightarrow> clamp offset 0 len < tbl ! nat (line p + 1)))"
proof (cases "t = []")
  case True
  then show ?thesis
    by (simp add: tbl_def position_at_def get_line_offsets_Nil clamp_def)
next
  case False
  define off where "off = clamp offset 0 len"
  have off: "0 \<le> off" "off \<le> len" by (auto simp: off_def clamp_def len_def)
  have srt: "sorted_wrt (<) tbl" unfolding tbl_def by (rule get_line_offsets_sorted)
  have first: "tbl \<noteq> []" "tbl ! 0 = 0"
    using get_line_offsets_first[OF False] by (auto simp: tbl_def)
  have inv0: "search_inv tbl off 0 (int (length tbl))" by (simp add: search_inv_def)
  note res = position_at_loop_correct[OF srt inv0]
  show ?thesis
  proof (cases "position_at_loop tbl off 0 (int (length tbl))")
    case (Inl mid)
    with res have mid: "0 \<le> mid" "mid < int (length tbl)" "tbl ! nat mid = off" by auto
    have "mid + 1 < int (length tbl) \<longrightarrow> off < tbl ! nat (mid + 1)"
      using sorted_table_less[OF srt, of mid "mid + 1"] mid by auto
    with mid Inl first False show ?thesis
      by (simp add: position_at_def off_def[symmetric] len_def[symmetric] Let_def)
  next
    case (Inr low')
    with res have inv: "search_inv tbl off low' (low' - 1)" by simp
    have "low' \<noteq> 0"
    proof
      assume "low' = 0"
      with inv have "\<forall>k. - 1 < k \<and> k < int (length tbl) \<longrightarrow> off < tbl ! nat k"
        by (simp add: search_inv_def)
      then have "- 1 < (0::int) \<and> 0 < int (length tbl) \<longrightarrow> off < tbl ! nat 0" by blast
      with first off show False by simp
    qed
    with inv have low': "1 \<le> low'" "low' \<le> int (length tbl)" by (auto simp: search_inv_def)
    then have get: "array_get tbl (low' - 1) = Some (tbl ! nat (low' - 1))"
      by (simp add: array_get_def)
    have below: "tbl ! nat (low' - 1) < off"
      using inv low' by (auto simp: search_inv_def)
    have above: "low' < int (length tbl) \<longrightarrow> off < tbl ! nat low'"
      using inv low' by (auto simp: search_inv_def)
    from Inr get below above low' first False show ?thesis
      by (simp add: position_at_def off_def[symmetric] len_def[symmetric] Let_def)
  qed
qed

lemma offset_at_in_line:
  "0 \<le> line p \<Longrightarrow> line p < int (length tbl) \<Longrightarrow>
   offset_at p t tbl =
     max (tbl ! nat (line p))
       (min (tbl ! nat (line p) + character p)
          (if line p + 1 < int (length tbl) then tbl ! nat (line p + 1) else int (length t)))"
  by (simp add: offset_at_def clamp_def Let_def)

lemma get_line_offsets_next_ge:
  assumes "0 \<le> l" "l < int (length (get_line_offsets t))"
  shows "get_line_offsets t ! nat l \<le>
     (if l + 1 < int (length (get_line_offsets t)) then get_line_offsets t ! nat (l + 1)
      else int (length t))"
proof (cases "l + 1 < int (length (get_line_offsets t))")
  case True
  then show ?thesis
    using sorted_table_le[OF get_line_offsets_sorted, of l "l + 1" t] assms by simp
next
  case False
  have "get_line_offsets t ! nat l \<in> set (get_line_offsets t)"
    using assms by simp
  then show ?thesis using False get_line_offsets_range by auto
qed

lemma position_at_clamps:
  "position_at offset t tbl = position_at (clamp offset 0 (int (length t))) t tbl"
  by (simp add: position_at_def clamp_def Let_def)

section \<open>The line index: round trip and clamping\<close>

text \<open>
  Claim C4. For every text and every offset between 0 and the length of the text,
  \<^verbatim>\<open>position_at\<close> on the text's own line-offset table returns a position (never the
  \<open>NaN\<close> error), and \<^verbatim>\<open>offset_at\<close> of that position is the offset again.
\<close>

theorem offset_at_position_at_round_trip:
  "0 \<le> offset \<Longrightarrow> offset \<le> int (length t) \<Longrightarrow>
   \<exists>p. position_at offset t (get_line_offsets t) = Inr p \<and>
       offset_at p t (get_line_offsets t) = offset"
proof -
  assume range: "0 \<le> offset" "offset \<le> int (length t)"
  then have cl: "clamp offset 0 (int (length t)) = offset" by (simp add: clamp_def)
  obtain p where p: "position_at offset t (get_line_offsets t) = Inr p"
    and spec: "if t = [] then p = \<lparr>line = 0, character = 0\<rparr>
      else 0 \<le> line p \<and> line p < int (length (get_line_offsets t)) \<and>
           get_line_offsets t ! nat (line p) \<le> offset \<and>
           character p = offset - get_line_offsets t ! nat (line p) \<and>
           (line p + 1 < int (length (get_line_offsets t)) \<longrightarrow>
              offset < get_line_offsets t ! nat (line p + 1))"
    using position_at_own_table[of offset t] unfolding cl by blast
  have "offset_at p t (get_line_offsets t) = offset"
  proof (cases "t = []")
    case True
    with spec range show ?thesis by (simp add: offset_at_def get_line_offsets_Nil)
  next
    case False
    with spec range show ?thesis by (auto simp: offset_at_in_line)
  qed
  with p show ?thesis by blast
qed

theorem offset_at_position_at_round_trip_witness:
  "position_at 4 (''a'' @ [CR, LF] @ ''bc'' @ [LF]) (get_line_offsets (''a'' @ [CR, LF] @ ''bc'' @ [LF]))
     = Inr \<lparr>line = 1, character = 1\<rparr> \<and>
   offset_at \<lparr>line = 1, character = 1\<rparr> (''a'' @ [CR, LF] @ ''bc'' @ [LF])
     (get_line_offsets (''a'' @ [CR, LF] @ ''bc'' @ [LF])) = 4"
proof -
  have pos: "position_at 4 (''a'' @ [CR, LF] @ ''bc'' @ [LF])
      (get_line_offsets (''a'' @ [CR, LF] @ ''bc'' @ [LF])) = Inr \<lparr>line = 1, character = 1\<rparr>"
    by code_simp
  show ?thesis
    using offset_at_position_at_round_trip [of 4 "''a'' @ [CR, LF] @ ''bc'' @ [LF]"]
    unfolding pos by simp
qed



text \<open>
  Claim C8. \<^verbatim>\<open>offset_at\<close> and \<^verbatim>\<open>position_at\<close> are total on integers. For any table,
  \<^verbatim>\<open>offset_at\<close> is 0 on a negative line and the length of the text on a line at or past
  the table's length. On a line of the text's own table it lies between the line's start
  and the next line's start (the length of the text on the last line), and is the line's
  start plus the character, the character first raised to 0, cut at the next line's
  start. \<^verbatim>\<open>position_at\<close> depends on its offset only through the offset clamped
  into \<open>[0, length text]\<close>, and on the text's own table it returns a position whose line
  and character are not negative.
\<close>

theorem offset_at_position_at_total:
  "(line p < 0 \<longrightarrow> offset_at p t tbl = 0) \<and>
   (int (length tbl) \<le> line p \<longrightarrow> offset_at p t tbl = int (length t)) \<and>
   (0 \<le> line p \<and> line p < int (length (get_line_offsets t)) \<longrightarrow>
      get_line_offsets t ! nat (line p) \<le> offset_at p t (get_line_offsets t) \<and>
      offset_at p t (get_line_offsets t) \<le>
        (if line p + 1 < int (length (get_line_offsets t))
         then get_line_offsets t ! nat (line p + 1) else int (length t)) \<and>
      offset_at p t (get_line_offsets t) =
        min (get_line_offsets t ! nat (line p) + max 0 (character p))
          (if line p + 1 < int (length (get_line_offsets t))
           then get_line_offsets t ! nat (line p + 1) else int (length t))) \<and>
   position_at offset t tbl = position_at (clamp offset 0 (int (length t))) t tbl \<and>
   0 \<le> clamp offset 0 (int (length t)) \<and> clamp offset 0 (int (length t)) \<le> int (length t) \<and>
   (\<exists>q. position_at offset t (get_line_offsets t) = Inr q \<and> 0 \<le> line q \<and> 0 \<le> character q)"
proof (intro conjI impI)
  show "line p < 0 \<Longrightarrow> offset_at p t tbl = 0"
    by (simp add: offset_at_def)
  show "int (length tbl) \<le> line p \<Longrightarrow> offset_at p t tbl = int (length t)"
    by (simp add: offset_at_def)
  show "position_at offset t tbl = position_at (clamp offset 0 (int (length t))) t tbl"
    by (rule position_at_clamps)
  show "0 \<le> clamp offset 0 (int (length t))" "clamp offset 0 (int (length t)) \<le> int (length t)"
    by (simp_all add: clamp_def)
  show "\<exists>q. position_at offset t (get_line_offsets t) = Inr q \<and> 0 \<le> line q \<and> 0 \<le> character q"
    using position_at_own_table[of offset t] by (cases "t = []") auto
next
  assume l: "0 \<le> line p \<and> line p < int (length (get_line_offsets t))"
  note ge = get_line_offsets_next_ge[of "line p" t]
  show "get_line_offsets t ! nat (line p) \<le> offset_at p t (get_line_offsets t)"
    using l by (simp add: offset_at_in_line)
  show "offset_at p t (get_line_offsets t) \<le>
        (if line p + 1 < int (length (get_line_offsets t))
         then get_line_offsets t ! nat (line p + 1) else int (length t))"
    using l ge by (simp add: offset_at_in_line)
  show "offset_at p t (get_line_offsets t) =
        min (get_line_offsets t ! nat (line p) + max 0 (character p))
          (if line p + 1 < int (length (get_line_offsets t))
           then get_line_offsets t ! nat (line p + 1) else int (length t))"
  proof -
    have "offset_at p t (get_line_offsets t) =
        max (get_line_offsets t ! nat (line p))
         (min (get_line_offsets t ! nat (line p) + character p)
          (if line p + 1 < int (length (get_line_offsets t))
           then get_line_offsets t ! nat (line p + 1) else int (length t)))"
      using l by (simp add: offset_at_in_line)
    with ge l show ?thesis by linarith
  qed
qed


theorem offset_at_position_at_total_witness:
  "offset_at \<lparr>line = - 1, character = 0\<rparr> (''a'' @ [CR, LF] @ ''bc'' @ [LF]) [0, 3, 6] = 0 \<and>
   offset_at \<lparr>line = 1000, character = 0\<rparr> (''a'' @ [CR, LF] @ ''bc'' @ [LF]) [0, 3, 6] = 6 \<and>
   offset_at \<lparr>line = 1, character = 50\<rparr> (''a'' @ [CR, LF] @ ''bc'' @ [LF]) [0, 3, 6] = 6 \<and>
   offset_at \<lparr>line = 1, character = - 50\<rparr> (''a'' @ [CR, LF] @ ''bc'' @ [LF]) [0, 3, 6] = 3 \<and>
   (\<exists>q. position_at 99 (''a'' @ [CR, LF] @ ''bc'' @ [LF]) [0, 3, 6] = Inr q \<and>
        0 \<le> line q \<and> 0 \<le> character q)"
proof -
  have tbl: "get_line_offsets (''a'' @ [CR, LF] @ ''bc'' @ [LF]) = [0, 3, 6]"
    by code_simp
  show ?thesis
    using offset_at_position_at_total
        [of "\<lparr>line = - 1, character = 0\<rparr>" "''a'' @ [CR, LF] @ ''bc'' @ [LF]" "[0, 3, 6]" 99]
      offset_at_position_at_total
        [of "\<lparr>line = 1000, character = 0\<rparr>" "''a'' @ [CR, LF] @ ''bc'' @ [LF]" "[0, 3, 6]" 99]
      offset_at_position_at_total
        [of "\<lparr>line = 1, character = 50\<rparr>" "''a'' @ [CR, LF] @ ''bc'' @ [LF]" "[0, 3, 6]" 99]
      offset_at_position_at_total
        [of "\<lparr>line = 1, character = - 50\<rparr>" "''a'' @ [CR, LF] @ ''bc'' @ [LF]" "[0, 3, 6]" 99]
    unfolding tbl by simp
qed

section \<open>The source-map bridge and the line mappers\<close>

text \<open>
  Claim C6. When the consumer of the source map returns \<^verbatim>\<open>null\<close> for both the line and
  the column of a position, the mapper made by \<^verbatim>\<open>create_source_mapper\<close> returns the
  sentinel position with line \<open>-1\<close> and character \<open>0\<close>.
\<close>

theorem create_source_mapper_sentinel:
  "originalPositionFor (line p + 1) (character p) = (None, None) \<Longrightarrow>
   create_source_mapper originalPositionFor p = \<lparr>line = - 1, character = 0\<rparr>"
  by (simp add: create_source_mapper_def)


theorem create_source_mapper_sentinel_witness:
  "create_source_mapper (\<lambda>l c. if l = 3 then (None, None) else (Some l, Some c))
     \<lparr>line = 2, character = 9\<rparr> = \<lparr>line = - 1, character = 0\<rparr>"
  using create_source_mapper_sentinel
    [of "\<lambda>l c. if l = 3 then (None, None) else (Some l, Some c)" "\<lparr>line = 2, character = 9\<rparr>"]
  by simp


text \<open>
  Claim C9. Both directions of the mapper made by \<^verbatim>\<open>create_remove_line_mapper\<close> return
  the character of their argument unchanged, whether or not the line is found in the map.
\<close>

theorem create_remove_line_mapper_keeps_character:
  "character (map_to_generated_position (create_remove_line_mapper m) p) = character p \<and>
   character (map_to_original_position (create_remove_line_mapper m) p) = character p"
  by (simp add: create_remove_line_mapper_def Let_def)


theorem create_remove_line_mapper_keeps_character_witness:
  "character (map_to_generated_position
      (create_remove_line_mapper (check_removed_lines (''a'' @ [LF] @ ''b'') ''b''))
      \<lparr>line = 1, character = 7\<rparr>) = 7 \<and>
   character (map_to_original_position
      (create_remove_line_mapper (check_removed_lines (''a'' @ [LF] @ ''b'') ''b''))
      \<lparr>line = 5, character = 7\<rparr>) = 7"
  using create_remove_line_mapper_keeps_character
    [of "check_removed_lines (''a'' @ [LF] @ ''b'') ''b''" "\<lparr>line = 1, character = 7\<rparr>"]
    create_remove_line_mapper_keeps_character
    [of "check_removed_lines (''a'' @ [LF] @ ''b'') ''b''" "\<lparr>line = 5, character = 7\<rparr>"]
  by simp


section \<open>Removing lines from the source\<close>

text \<open>
  Claim C7. The lines of \<^verbatim>\<open>remove_lines_from_source source removed_lines\<close> are the
  lines of the source whose index is not among \<open>removed_lines\<close>, in their order and with
  their text unchanged (\<open>nths\<close> selects the lines at a set of indices). When every line
  is removed the result is the empty text.
\<close>

theorem remove_lines_from_source_deletes:
  "(nths (split_lines source) {i. int i \<notin> set removed_lines} \<noteq> [] \<longrightarrow>
      split_lines (remove_lines_from_source source removed_lines) =
        nths (split_lines source) {i. int i \<notin> set removed_lines}) \<and>
   (nths (split_lines source) {i. int i \<notin> set removed_lines} = [] \<longrightarrow>
      remove_lines_from_source source removed_lines = [])"
proof (cases "removed_lines = []")
  case True
  then have "nths (split_lines source) {i. int i \<notin> set removed_lines} = split_lines source"
    by (simp add: nths_UNIV)
  with True show ?thesis
    by (simp add: remove_lines_from_source_def split_lines_nonempty)
next
  case False
  let ?kept = "nths (split_lines source) {i. int i \<notin> set removed_lines}"
  have eq: "remove_lines_from_source source removed_lines = join [LF] ?kept"
    using False by (rule remove_lines_from_source_join)
  have "\<forall>l\<in>set ?kept. CR \<notin> set l \<and> LF \<notin> set l"
    using split_lines_no_break[of source] by (meson in_set_nthsD)
  then have "?kept \<noteq> [] \<longrightarrow> split_lines (join [LF] ?kept) = ?kept"
    by (simp add: split_lines_join)
  with eq show ?thesis by auto
qed


theorem remove_lines_from_source_deletes_witness:
  "nths (split_lines (''a'' @ [LF] @ ''b'' @ [CR, LF] @ ''c'' @ [LF] @ ''d'' @ [CR] @ ''e'' @ [LF] @ ''f''))
     {i. int i \<notin> set [1, 4]} = [''a'', ''c'', ''d'', ''f''] \<and>
   split_lines (remove_lines_from_source
     (''a'' @ [LF] @ ''b'' @ [CR, LF] @ ''c'' @ [LF] @ ''d'' @ [CR] @ ''e'' @ [LF] @ ''f'') [1, 4]) =
     [''a'', ''c'', ''d'', ''f'']"
proof -
  have kept: "nths (split_lines (''a'' @ [LF] @ ''b'' @ [CR, LF] @ ''c'' @ [LF] @ ''d'' @ [CR] @ ''e'' @ [LF] @ ''f''))
     {i. int i \<notin> set [1, 4]} = [''a'', ''c'', ''d'', ''f'']"
    by (simp add: nths_Cons)
  show ?thesis
    using remove_lines_from_source_deletes
      [of "''a'' @ [LF] @ ''b'' @ [CR, LF] @ ''c'' @ [LF] @ ''d'' @ [CR] @ ''e'' @ [LF] @ ''f''" "[1, 4]"]
    unfolding kept by simp
qed


text \<open>
  Claim C10. With no line to remove \<^verbatim>\<open>remove_lines_from_source\<close> returns the source as
  it is, carriage returns included. With at least one entry in \<open>removed_lines\<close> the
  result is the kept lines of the source, none of which holds a carriage return or a line
  feed, joined by single line feeds: it holds no carriage return, and exactly one line
  feed between two kept lines, wherever in the text a line was removed, and also when
  no index of \<open>removed_lines\<close> is a line of the source.
\<close>

theorem remove_lines_from_source_terminators:
  "(removed_lines = [] \<longrightarrow> remove_lines_from_source source removed_lines = source) \<and>
   (removed_lines \<noteq> [] \<longrightarrow>
      remove_lines_from_source source removed_lines =
        join [LF] (nths (split_lines source) {i. int i \<notin> set removed_lines}) \<and>
      (\<forall>l\<in>set (nths (split_lines source) {i. int i \<notin> set removed_lines}).
         CR \<notin> set l \<and> LF \<notin> set l) \<and>
      CR \<notin> set (remove_lines_from_source source removed_lines) \<and>
      length (filter (\<lambda>c. c = LF) (remove_lines_from_source source removed_lines)) =
        length (nths (split_lines source) {i. int i \<notin> set removed_lines}) - 1)"
proof (cases "removed_lines = []")
  case True
  then show ?thesis by (simp add: remove_lines_from_source_def)
next
  case False
  let ?kept = "nths (split_lines source) {i. int i \<notin> set removed_lines}"
  have eq: "remove_lines_from_source source removed_lines = join [LF] ?kept"
    using False by (rule remove_lines_from_source_join)
  have plain: "\<forall>l\<in>set ?kept. CR \<notin> set l \<and> LF \<notin> set l"
    using split_lines_no_break[of source] by (meson in_set_nthsD)
  then have nocr: "CR \<notin> set (join [LF] ?kept)"
    using join_set[of "[LF]" ?kept] by auto
  have cnt: "length (filter (\<lambda>c. c = LF) (join [LF] ?kept)) = length ?kept - 1"
    using plain by (intro join_count_LF) blast
  from False eq plain nocr cnt show ?thesis by simp
qed

theorem remove_lines_from_source_terminators_witness:
  "remove_lines_from_source (''a'' @ [CR, LF] @ ''b'' @ [CR] @ ''c'') [] =
     ''a'' @ [CR, LF] @ ''b'' @ [CR] @ ''c'' \<and>
   remove_lines_from_source (''a'' @ [CR, LF] @ ''b'' @ [CR] @ ''c'' @ [LF] @ ''d'') [3] =
     ''a'' @ [LF] @ ''b'' @ [LF] @ ''c''"
proof -
  have kept: "nths (split_lines (''a'' @ [CR, LF] @ ''b'' @ [CR] @ ''c'' @ [LF] @ ''d''))
      {i. int i \<notin> set [3]} = [''a'', ''b'', ''c'']"
    by (simp add: nths_Cons)
  show ?thesis
    using remove_lines_from_source_terminators [of "[]" "''a'' @ [CR, LF] @ ''b'' @ [CR] @ ''c''"]
      remove_lines_from_source_terminators
        [of "[3]" "''a'' @ [CR, LF] @ ''b'' @ [CR] @ ''c'' @ [LF] @ ''d''"]
    unfolding kept by simp
qed

section \<open>The two directions of the line mapper\<close>

lemma map_to_generated_position_eq:
  "map_to_generated_position (create_remove_line_mapper m) p =
     \<lparr>line = nullish (map_get (original_to_generated m) (line p)) (- 1), character = character p\<rparr>"
  by (simp add: create_remove_line_mapper_def)

lemma map_to_original_position_eq:
  "map_to_original_position (create_remove_line_mapper m) p =
     \<lparr>line = nullish (map_get (generated_to_original m) (line p)) (- 1), character = character p\<rparr>"
  by (simp add: create_remove_line_mapper_def)

section \<open>The line aligner on adjacent equal lines\<close>

text \<open>
  After a match the walk of \<^verbatim>\<open>check_removed_lines\<close> sets the search cursor to the index
  found, not to the index after it, and \<^verbatim>\<open>indexOf\<close> starts at the cursor. A line equal
  to the line before it is therefore found at the index of the line before it.
\<close>

text \<open>
  Claim C2. Aligning a text with itself should give the identity in both directions and
  no removed line. For the text of the four lines \<open>a\<close>, empty, empty, \<open>b\<close> the code
  maps the second empty line (index 2) to index 1, the inverse map has no entry for
  index 2 and sends index 1 to index 2, and line 2 is reported as removed.
\<close>

theorem check_removed_lines_self_reports_removed_line:
  "check_removed_lines (''a'' @ [LF, LF, LF] @ ''b'') (''a'' @ [LF, LF, LF] @ ''b'') =
     \<lparr>generated_to_original = [(0, 0), (1, 1), (2, 1), (3, 3)],
      original_to_generated = [(0, 0), (1, 2), (3, 3)],
      get_removed_lines = [2]\<rparr>"
  by code_simp

text \<open>
  Claim C3. The generated-to-original map should be strictly increasing on the lines it
  maps. For the same text aligned with itself the lines 1 and 2 are both mapped, and both
  to line 1.
\<close>

theorem check_removed_lines_maps_two_lines_to_one:
  "map_get (generated_to_original
      (check_removed_lines (''a'' @ [LF, LF, LF] @ ''b'') (''a'' @ [LF, LF, LF] @ ''b''))) 1 = Some 1 \<and>
   map_get (generated_to_original
      (check_removed_lines (''a'' @ [LF, LF, LF] @ ''b'') (''a'' @ [LF, LF, LF] @ ''b''))) 2 = Some 1"
  by code_simp

text \<open>
  What the cursor does secure, for all texts: the map never decreases.
\<close>

lemma indexOf_from:
  "indexOf xs x from < 0 \<or> (int from \<le> indexOf xs x from \<and> indexOf xs x from < int (length xs))"
proof (cases "find (\<lambda>i. xs ! i = x) [from..<length xs]")
  case None
  then show ?thesis by (simp add: indexOf_def)
next
  case (Some i)
  then have "i \<in> set [from..<length xs]"
    by (auto simp: find_Some_iff in_set_conv_nth)
  with Some show ?thesis by (simp add: indexOf_def)
qed

lemma check_removed_lines_loop_weakly_increasing:
  "\<forall>k v. map_get g2o k = Some v \<longrightarrow> k < int index \<and> v \<le> int cursor \<Longrightarrow>
   \<forall>k1 v1 k2 v2. map_get g2o k1 = Some v1 \<and> map_get g2o k2 = Some v2 \<and> k1 < k2 \<longrightarrow> v1 \<le> v2 \<Longrightarrow>
   map_get (check_removed_lines_loop ls cursor index rest g2o) i1 = Some j1 \<Longrightarrow>
   map_get (check_removed_lines_loop ls cursor index rest g2o) i2 = Some j2 \<Longrightarrow>
   i1 < i2 \<Longrightarrow> j1 \<le> j2"
proof (induction rest arbitrary: cursor index g2o)
  case Nil
  then show ?case by simp
next
  case (Cons l rest)
  let ?c = "indexOf ls l cursor"
  show ?case
  proof (cases "?c < 0")
    case True
    with Cons.prems show ?thesis by (simp add: Let_def)
  next
    case False
    then have c: "int cursor \<le> ?c" using indexOf_from[of ls l cursor] by simp
    let ?g = "map_set (int index) ?c g2o"
    have get: "\<And>k. map_get ?g k = (if k = int index then Some ?c else map_get g2o k)"
      by (simp add: map_get_def map_set_def update_conv')
    have bound: "\<forall>k v. map_get ?g k = Some v \<longrightarrow> k < int (index + 1) \<and> v \<le> int (nat ?c)"
      using Cons.prems(1) c False by (fastforce simp: get split: if_splits)
    have mono: "\<forall>k1 v1 k2 v2. map_get ?g k1 = Some v1 \<and> map_get ?g k2 = Some v2 \<and> k1 < k2
        \<longrightarrow> v1 \<le> v2"
    proof (intro allI impI, elim conjE)
      fix k1 v1 k2 v2
      assume a: "map_get ?g k1 = Some v1" "map_get ?g k2 = Some v2" "k1 < k2"
      show "v1 \<le> v2"
      proof (cases "k2 = int index")
        case True
        with a have "k1 \<noteq> int index" "v2 = ?c" by (auto simp: get)
        with a have "map_get g2o k1 = Some v1" by (simp add: get)
        with Cons.prems(1) have "v1 \<le> int cursor" by blast
        with c \<open>v2 = ?c\<close> show ?thesis by simp
      next
        case False
        with a have k2: "map_get g2o k2 = Some v2" by (simp add: get)
        with Cons.prems(1) have "k2 < int index" by blast
        with a have "map_get g2o k1 = Some v1" by (simp add: get)
        with k2 a Cons.prems(2) show ?thesis by blast
      qed
    qed
    have step: "check_removed_lines_loop ls cursor index (l # rest) g2o =
        check_removed_lines_loop ls (nat ?c) (index + 1) rest ?g"
      using False by (simp add: Let_def)
    show ?thesis
      using Cons.IH[of ?g "index + 1" "nat ?c", OF bound mono] Cons.prems(3,4,5)
      unfolding step by blast
  qed
qed

lemma check_removed_lines_weakly_increasing:
  "map_get (generated_to_original (check_removed_lines before after)) i1 = Some j1 \<Longrightarrow>
   map_get (generated_to_original (check_removed_lines before after)) i2 = Some j2 \<Longrightarrow>
   i1 < i2 \<Longrightarrow> j1 \<le> j2"
  using check_removed_lines_loop_weakly_increasing[of "[]" 0 0 "split_lines before" "split_lines after" i1 j1 i2 j2]
  by (simp add: check_removed_lines_def Let_def map_get_def)

text \<open>
  What follows from it in \<^verbatim>\<open>run_svelte_twoSlash\<close>: for a document with two equal
  adjacent lines, and an engine that removes nothing, the second of the two lines is
  taken for removed and is cut out of the processed text.
\<close>

lemma run_svelte_twoSlash_cuts_repeated_line:
  "code (run_svelte_twoSlash example_svelte2tsx example_files echo_runTwoSlash
           (''<s>'' @ [LF] @ ''x'' @ [LF] @ ''x'' @ [LF] @ ''</s>'')) =
     ''<s>'' @ [LF] @ ''x'' @ [LF] @ ''</s>''"
  by code_simp

section \<open>The diagnostics interceptor\<close>





section \<open>The orchestrator: the order of the stages\<close>

lemma map_info_to_result_eq:
  "map_info_to_result rlm N bridge source line_offsets srlm processed processed_line_offsets infoList =
     map (info_with_processed_position rlm N bridge source line_offsets srlm processed
            processed_line_offsets)
       (filter (\<lambda>info. line info > 0 \<and> character info > 0) infoList)"
  by (induction infoList) simp_all

lemma info_with_original_position_eq:
  "info_with_original_position (create_remove_line_mapper m) N bridge source line_offsets info =
     (let c = bridge \<lparr>line = nullish (map_get (generated_to_original m) (line info)) (- 1) - N,
                      character = character info\<rparr>
      in info\<lparr>line := line c, character := character c,
              start := offset_at c source line_offsets\<rparr>)"
  by (simp add: info_with_original_position_def map_two_slash_info_def
      map_to_original_position_eq Let_def)

lemma info_with_processed_position_eq:
  "info_with_processed_position (create_remove_line_mapper m) N bridge source line_offsets
     (create_remove_line_mapper m') processed processed_line_offsets info =
     (let c = bridge \<lparr>line = nullish (map_get (generated_to_original m) (line info)) (- 1) - N,
                      character = character info\<rparr>;
          f = \<lparr>line = nullish (map_get (original_to_generated m') (line c)) (- 1),
               character = character c\<rparr>
      in info\<lparr>line := line f, character := character f,
              start := offset_at f processed processed_line_offsets\<rparr>)"
  by (simp add: info_with_processed_position_def info_with_original_position_eq
      map_two_slash_info_def map_to_generated_position_eq Let_def)

lemma info_with_processed_position_targetString:
  "targetString (info_with_processed_position rlm N bridge source line_offsets srlm processed
     processed_line_offsets info) = targetString info"
  by (simp add: info_with_processed_position_def info_with_original_position_def
      map_two_slash_info_def Let_def)

lemma run_svelte_twoSlash_code:
  "code (run_svelte_twoSlash svelte2tsx svelte_tsx_files runTwoSlash source) =
     (let bridge = create_source_mapper (tsx_map (svelte2tsx source));
          generated = concat (map reference_line svelte_tsx_files) @ tsx_code (svelte2tsx source);
          twoslash = runTwoSlash generated (decorate_ts generated bridge)
      in remove_lines_from_source source
           (map (\<lambda>line_v. line (bridge \<lparr>line = line_v - int (length svelte_tsx_files),
                                         character = 0\<rparr>))
              (get_removed_lines (check_removed_lines generated (code twoslash)))))"
  by (simp add: run_svelte_twoSlash_def Let_def)

lemma run_svelte_twoSlash_errors:
  "errors (run_svelte_twoSlash svelte2tsx svelte_tsx_files runTwoSlash source) =
     (let bridge = create_source_mapper (tsx_map (svelte2tsx source));
          generated = concat (map reference_line svelte_tsx_files) @ tsx_code (svelte2tsx source);
          twoslash = runTwoSlash generated (decorate_ts generated bridge);
          processed = code (run_svelte_twoSlash svelte2tsx svelte_tsx_files runTwoSlash source)
      in map_info_to_result
           (create_remove_line_mapper (check_removed_lines generated (code twoslash)))
           (int (length svelte_tsx_files)) bridge source (get_line_offsets source)
           (create_remove_line_mapper (check_removed_lines source processed))
           processed (get_line_offsets processed) (errors twoslash))"
  by (simp add: run_svelte_twoSlash_def Let_def)

lemma run_svelte_twoSlash_staticQuickInfos:
  "staticQuickInfos (run_svelte_twoSlash svelte2tsx svelte_tsx_files runTwoSlash source) =
     (let bridge = create_source_mapper (tsx_map (svelte2tsx source));
          generated = concat (map reference_line svelte_tsx_files) @ tsx_code (svelte2tsx source);
          twoslash = runTwoSlash generated (decorate_ts generated bridge);
          processed = code (run_svelte_twoSlash svelte2tsx svelte_tsx_files runTwoSlash source)
      in filter (\<lambda>info. targetString info \<noteq> ''render'')
          (map_info_to_result
           (create_remove_line_mapper (check_removed_lines generated (code twoslash)))
           (int (length svelte_tsx_files)) bridge source (get_line_offsets source)
           (create_remove_line_mapper (check_removed_lines source processed))
           processed (get_line_offsets processed) (staticQuickInfos twoslash)))"
  by (simp add: run_svelte_twoSlash_def Let_def)

text \<open>
  Claim C1, as amended. Every entry of the \<^verbatim>\<open>errors\<close> and \<^verbatim>\<open>staticQuickInfos\<close> that
  \<^verbatim>\<open>run_svelte_twoSlash\<close> returns comes from a result of the engine, the engine's order
  kept, with its position mapped in this order: first the alignment from the engine's
  code to the generated text (\<open>-1\<close> for a line with no entry), then the subtraction of
  the number of prepended lines, then the source-map bridge (these three are \<open>original\<close>
  below), then \<^verbatim>\<open>offset_at\<close> in the original document, which is the \<open>start\<close> of
  \<open>info_with_original_position\<close>. The entry returned carries the line that the alignment
  of the original document with the processed text gives for that position (\<open>-1\<close> for a
  line with no entry), the character of that position, and as \<open>start\<close> the
  \<^verbatim>\<open>offset_at\<close> of the two in the processed text. No quick-info whose \<open>targetString\<close> is
  \<open>render\<close> is returned. Which results are kept is not part of the statement.
\<close>

theorem run_svelte_twoSlash_maps_results:
  fixes svelte2tsx :: "string \<Rightarrow> svelte2tsx_return"
    and runTwoSlash :: "string \<Rightarrow> ('d language_service \<Rightarrow> string \<Rightarrow> error + 'd diagnostic_scheme list) \<Rightarrow>
      ('q, 'e, 'z) twoslash_return_scheme"
    and info :: "'i info_scheme"
    and svelte_tsx_files :: "string list"
    and source :: string
  defines "N \<equiv> int (length svelte_tsx_files)"
    and "bridge \<equiv> create_source_mapper (tsx_map (svelte2tsx source))"
    and "generated \<equiv> concat (map reference_line svelte_tsx_files) @ tsx_code (svelte2tsx source)"
  defines "twoslash \<equiv> runTwoSlash generated (decorate_ts generated bridge)"
    and "out \<equiv> run_svelte_twoSlash svelte2tsx svelte_tsx_files runTwoSlash source"
  defines "g2o \<equiv> generated_to_original (check_removed_lines generated (code twoslash))"
    and "o2g \<equiv> original_to_generated (check_removed_lines source (code out))"
  defines "original \<equiv> \<lambda>l c. bridge \<lparr>line = nullish (map_get g2o l) (- 1) - N, character = c\<rparr>"
  defines "final \<equiv> \<lambda>l c. \<lparr>line = nullish (map_get o2g (line (original l c))) (- 1),
                           character = character (original l c)\<rparr>"
  shows
    "(\<exists>kept. subseq kept (errors twoslash) \<and>
        errors out =
          map (\<lambda>r. r\<lparr>line := line (final (line r) (character r)),
                      character := character (final (line r) (character r)),
                      start := offset_at (final (line r) (character r)) (code out)
                                 (get_line_offsets (code out))\<rparr>) kept) \<and>
     (\<exists>kept. subseq kept (staticQuickInfos twoslash) \<and>
        (\<forall>q\<in>set kept. targetString q \<noteq> ''render'') \<and>
        staticQuickInfos out =
          map (\<lambda>r. r\<lparr>line := line (final (line r) (character r)),
                      character := character (final (line r) (character r)),
                      start := offset_at (final (line r) (character r)) (code out)
                                 (get_line_offsets (code out))\<rparr>) kept) \<and>
     info_with_original_position
        (create_remove_line_mapper (check_removed_lines generated (code twoslash)))
        N bridge source (get_line_offsets source) info =
       info\<lparr>line := line (original (line info) (character info)),
            character := character (original (line info) (character info)),
            start := offset_at (original (line info) (character info)) source
                       (get_line_offsets source)\<rparr>"
proof (intro conjI)
  let ?rlm = "create_remove_line_mapper (check_removed_lines generated (code twoslash))"
  let ?srlm = "create_remove_line_mapper (check_removed_lines source (code out))"
  let ?P = "\<lambda>r. line r > 0 \<and> character r > 0"
  have proc: "\<And>r :: 'x info_scheme.
      info_with_processed_position ?rlm N bridge source (get_line_offsets source) ?srlm (code out)
        (get_line_offsets (code out)) r =
      r\<lparr>line := line (final (line r) (character r)),
        character := character (final (line r) (character r)),
        start := offset_at (final (line r) (character r)) (code out)
                   (get_line_offsets (code out))\<rparr>"
    by (simp add: info_with_processed_position_eq Let_def final_def original_def g2o_def o2g_def)
  have e: "errors out =
      map (info_with_processed_position ?rlm N bridge source (get_line_offsets source) ?srlm
             (code out) (get_line_offsets (code out)))
        (filter ?P (errors twoslash))"
    unfolding out_def twoslash_def generated_def bridge_def N_def
    by (simp add: run_svelte_twoSlash_errors Let_def map_info_to_result_eq)
  show "\<exists>kept. subseq kept (errors twoslash) \<and>
        errors out =
          map (\<lambda>r. r\<lparr>line := line (final (line r) (character r)),
                      character := character (final (line r) (character r)),
                      start := offset_at (final (line r) (character r)) (code out)
                                 (get_line_offsets (code out))\<rparr>) kept"
    by (rule exI[of _ "filter ?P (errors twoslash)"]) (simp add: e proc)
  let ?Q = "\<lambda>r. (line r > 0 \<and> character r > 0) \<and> targetString r \<noteq> ''render''"
  have q: "staticQuickInfos out =
      map (info_with_processed_position ?rlm N bridge source (get_line_offsets source) ?srlm
             (code out) (get_line_offsets (code out)))
        (filter ?Q (staticQuickInfos twoslash))"
    unfolding out_def twoslash_def generated_def bridge_def N_def
    by (simp add: run_svelte_twoSlash_staticQuickInfos Let_def map_info_to_result_eq
        filter_map comp_def info_with_processed_position_targetString conj_commute)
  show "\<exists>kept. subseq kept (staticQuickInfos twoslash) \<and>
        (\<forall>q\<in>set kept. targetString q \<noteq> ''render'') \<and>
        staticQuickInfos out =
          map (\<lambda>r. r\<lparr>line := line (final (line r) (character r)),
                      character := character (final (line r) (character r)),
                      start := offset_at (final (line r) (character r)) (code out)
                                 (get_line_offsets (code out))\<rparr>) kept"
    by (rule exI[of _ "filter ?Q (staticQuickInfos twoslash)"]) (simp add: q proc)
  show "info_with_original_position ?rlm N bridge source (get_line_offsets source) info =
       info\<lparr>line := line (original (line info) (character info)),
            character := character (original (line info) (character info)),
            start := offset_at (original (line info) (character info)) source
                       (get_line_offsets source)\<rparr>"
    by (simp add: info_with_original_position_eq Let_def original_def g2o_def)
qed

theorem run_svelte_twoSlash_maps_results_witness:
  "\<exists>kept. subseq kept example_errors \<and>
     errors (run_svelte_twoSlash example_svelte2tsx example_files example_runTwoSlash example_source) =
       map (\<lambda>r. r\<lparr>line := nullish (map_get [(0, 0), (2, 1), (3, 2)]
                              (line (create_source_mapper (tsx_map (example_svelte2tsx example_source))
                                 \<lparr>line = nullish (map_get [(0, 0), (1, 1), (2, 2), (3, 3), (4, 5), (5, 6)]
                                                   (line r)) (- 1) - 3,
                                  character = character r\<rparr>))) (- 1),
                   character := character (create_source_mapper (tsx_map (example_svelte2tsx example_source))
                                 \<lparr>line = nullish (map_get [(0, 0), (1, 1), (2, 2), (3, 3), (4, 5), (5, 6)]
                                                   (line r)) (- 1) - 3,
                                  character = character r\<rparr>),
                   start := offset_at
                      \<lparr>line = nullish (map_get [(0, 0), (2, 1), (3, 2)]
                              (line (create_source_mapper (tsx_map (example_svelte2tsx example_source))
                                 \<lparr>line = nullish (map_get [(0, 0), (1, 1), (2, 2), (3, 3), (4, 5), (5, 6)]
                                                   (line r)) (- 1) - 3,
                                  character = character r\<rparr>))) (- 1),
                       character = character (create_source_mapper (tsx_map (example_svelte2tsx example_source))
                                 \<lparr>line = nullish (map_get [(0, 0), (1, 1), (2, 2), (3, 3), (4, 5), (5, 6)]
                                                   (line r)) (- 1) - 3,
                                  character = character r\<rparr>)\<rparr>
                      example_processed [0, 4, 10]\<rparr>) kept"
proof -
  have gen: "concat (map reference_line example_files) @ tsx_code (example_svelte2tsx example_source)
      = example_generated"
    by (simp add: example_generated_def example_svelte2tsx_def)
  have two: "\<And>g m. code (example_runTwoSlash g m) = remove_lines_from_source g [4]"
    "\<And>g m. errors (example_runTwoSlash g m) = example_errors"
    by (simp_all add: example_runTwoSlash_def)
  have proc: "code (run_svelte_twoSlash example_svelte2tsx example_files example_runTwoSlash
      example_source) = example_processed"
    by code_simp
  have g2o: "generated_to_original
      (check_removed_lines example_generated (remove_lines_from_source example_generated [4])) =
      [(0, 0), (1, 1), (2, 2), (3, 3), (4, 5), (5, 6)]"
    by code_simp
  have o2g: "original_to_generated (check_removed_lines example_source example_processed) =
      [(0, 0), (2, 1), (3, 2)]"
    by code_simp
  have offs: "get_line_offsets example_processed = [0, 4, 10]"
    by code_simp
  have len: "int (length example_files) = 3"
    by (simp add: example_files_def)
  note inst = run_svelte_twoSlash_maps_results
      [where svelte2tsx = example_svelte2tsx and svelte_tsx_files = example_files
         and runTwoSlash = example_runTwoSlash and source = example_source,
       THEN conjunct1, unfolded gen two proc g2o o2g offs len]
  show ?thesis
    using inst by simp
qed

text \<open>
  The claim as stated fails on the worked input. The error at line 5 of the engine's code
  is on the last line of the document, line 3: the code takes the alignment first (line 6
  of the generated text) and then subtracts the three prepended lines. In the order of
  the claim, subtraction first, the result is line 2 of the document. And the error at
  line 1, inside the prepended lines, is returned although its mapped line is \<open>-1\<close>; by
  the rule of the claim only one result would be returned. (The entries returned are in
  the coordinates of the processed text, where the last line of the document is line 2.)
\<close>

theorem run_svelte_twoSlash_claimed_order_counterexample:
  "info_with_original_position
     (create_remove_line_mapper
        (check_removed_lines example_generated (remove_lines_from_source example_generated [4])))
     3 (create_source_mapper (tsx_map (example_svelte2tsx example_source)))
     example_source (get_line_offsets example_source)
     \<lparr>line = 5, character = 1, start = 104\<rparr> = \<lparr>line = 3, character = 1, start = 17\<rparr> \<and>
   spec_map_result 3
     (generated_to_original
        (check_removed_lines example_generated (remove_lines_from_source example_generated [4])))
     (create_source_mapper (tsx_map (example_svelte2tsx example_source))) example_source
     \<lparr>line = 5, character = 1, start = 104\<rparr> = \<lparr>line = 2, character = 1, start = 11\<rparr> \<and>
   errors (run_svelte_twoSlash example_svelte2tsx example_files example_runTwoSlash example_source) =
     [\<lparr>line = - 1, character = 0, start = 0\<rparr>, \<lparr>line = 2, character = 1, start = 11\<rparr>] \<and>
   spec_results 3
     (generated_to_original
        (check_removed_lines example_generated (remove_lines_from_source example_generated [4])))
     (create_source_mapper (tsx_map (example_svelte2tsx example_source))) example_source
     example_errors = [\<lparr>line = 2, character = 1, start = 11\<rparr>]"
proof (intro conjI)
  show "info_with_original_position
     (create_remove_line_mapper
        (check_removed_lines example_generated (remove_lines_from_source example_generated [4])))
     3 (create_source_mapper (tsx_map (example_svelte2tsx example_source)))
     example_source (get_line_offsets example_source)
     \<lparr>line = 5, character = 1, start = 104\<rparr> = \<lparr>line = 3, character = 1, start = 17\<rparr>"
    by code_simp
  show "spec_map_result 3
     (generated_to_original
        (check_removed_lines example_generated (remove_lines_from_source example_generated [4])))
     (create_source_mapper (tsx_map (example_svelte2tsx example_source))) example_source
     \<lparr>line = 5, character = 1, start = 104\<rparr> = \<lparr>line = 2, character = 1, start = 11\<rparr>"
    by code_simp
  show "errors (run_svelte_twoSlash example_svelte2tsx example_files example_runTwoSlash example_source) =
     [\<lparr>line = - 1, character = 0, start = 0\<rparr>, \<lparr>line = 2, character = 1, start = 11\<rparr>]"
    by code_simp
  show "spec_results 3
     (generated_to_original
        (check_removed_lines example_generated (remove_lines_from_source example_generated [4])))
     (create_source_mapper (tsx_map (example_svelte2tsx example_source))) example_source
     example_errors = [\<lparr>line = 2, character = 1, start = 11\<rparr>]"
    by code_simp
qed

section \<open>The older revision\<close>

text \<open>
  In the older revision quick-infos go through the same stages in the same order, and a
  result is kept when the position after the bridge has \<open>line > 0\<close> and
  \<open>character > 0\<close> (and, for a quick-info, the \<open>targetString\<close> is not \<open>render\<close>). Errors
  have the number of prepended lines subtracted before the alignment and again after it.
\<close>

lemma map_two_slash_info_eq:
  "map_two_slash_info mapper source r line_offsets =
     r\<lparr>line := line (mapper \<lparr>line = line r, character = character r\<rparr>),
       character := character (mapper \<lparr>line = line r, character = character r\<rparr>),
       start := offset_at (mapper \<lparr>line = line r, character = character r\<rparr>) source line_offsets\<rparr>"
  by (simp add: map_two_slash_info_def Let_def)

lemma runSvelteTwoSlash_code:
  "code (runSvelteTwoSlash svelte2tsx svelteTsxFiles runTwoSlash source) =
     (let bridge = create_source_mapper (tsx_map (svelte2tsx source));
          generated =
            fold (\<lambda>path. prependLine (''/// <reference path='' @ [CHR 0x22] @ path @ [CHR 0x22] @ '' />''))
              svelteTsxFiles (tsx_code (svelte2tsx source));
          twoslash = runTwoSlash generated (decorate_ts generated bridge)
      in remove_lines_from_source source
           (map (\<lambda>line_v. line (bridge \<lparr>line = line_v - int (length svelteTsxFiles),
                                         character = 0\<rparr>))
              (get_removed_lines (check_removed_lines generated (code twoslash)))))"
  by (simp add: runSvelteTwoSlash_def Let_def)

lemma runSvelteTwoSlash_staticQuickInfos:
  "staticQuickInfos (runSvelteTwoSlash svelte2tsx svelteTsxFiles runTwoSlash source) =
     (let N = int (length svelteTsxFiles);
          bridge = create_source_mapper (tsx_map (svelte2tsx source));
          generated =
            fold (\<lambda>path. prependLine (''/// <reference path='' @ [CHR 0x22] @ path @ [CHR 0x22] @ '' />''))
              svelteTsxFiles (tsx_code (svelte2tsx source));
          twoslash = runTwoSlash generated (decorate_ts generated bridge);
          processed = code (runSvelteTwoSlash svelte2tsx svelteTsxFiles runTwoSlash source);
          rlm = create_remove_line_mapper (check_removed_lines generated (code twoslash));
          srlm = create_remove_line_mapper (check_removed_lines source processed)
      in map (\<lambda>r. map_two_slash_info (map_to_generated_position srlm) processed r
                     (get_line_offsets processed))
           (filter (\<lambda>r. line r > 0 \<and> character r > 0 \<and> targetString r \<noteq> ''render'')
              (map (\<lambda>r. map_two_slash_info bridge source
                            (r\<lparr>line := line (map_to_original_position rlm
                                            \<lparr>line = line r, character = character r\<rparr>) - N\<rparr>)
                            (get_line_offsets source))
                 (staticQuickInfos twoslash))))"
  by (simp add: runSvelteTwoSlash_def Let_def)

lemma runSvelteTwoSlash_errors:
  "errors (runSvelteTwoSlash svelte2tsx svelteTsxFiles runTwoSlash source) =
     (let N = int (length svelteTsxFiles);
          bridge = create_source_mapper (tsx_map (svelte2tsx source));
          generated =
            fold (\<lambda>path. prependLine (''/// <reference path='' @ [CHR 0x22] @ path @ [CHR 0x22] @ '' />''))
              svelteTsxFiles (tsx_code (svelte2tsx source));
          twoslash = runTwoSlash generated (decorate_ts generated bridge);
          processed = code (runSvelteTwoSlash svelte2tsx svelteTsxFiles runTwoSlash source);
          rlm = create_remove_line_mapper (check_removed_lines generated (code twoslash));
          srlm = create_remove_line_mapper (check_removed_lines source processed)
      in map (\<lambda>r. map_two_slash_info (map_to_generated_position srlm) processed r
                     (get_line_offsets processed))
           (filter (\<lambda>r. line r > 0 \<and> character r > 0)
              (map (\<lambda>r. map_two_slash_info bridge source
                            (r\<lparr>line := line (map_to_original_position rlm
                                            \<lparr>line = line r - N, character = character r\<rparr>) - N\<rparr>)
                            (get_line_offsets source))
                 (errors twoslash))))"
  by (simp add: runSvelteTwoSlash_def Let_def)

lemma runSvelteTwoSlash_results:
  fixes svelte2tsx :: "string \<Rightarrow> svelte2tsx_return"
    and runTwoSlash :: "string \<Rightarrow> ('d language_service \<Rightarrow> string \<Rightarrow> error + 'd diagnostic_scheme list) \<Rightarrow>
      ('q, 'e, 'z) twoslash_return_scheme"
    and svelteTsxFiles :: "string list"
    and source :: string
  defines "N \<equiv> int (length svelteTsxFiles)"
    and "bridge \<equiv> create_source_mapper (tsx_map (svelte2tsx source))"
    and "generated \<equiv>
      fold (\<lambda>path. prependLine (''/// <reference path='' @ [CHR 0x22] @ path @ [CHR 0x22] @ '' />''))
        svelteTsxFiles (tsx_code (svelte2tsx source))"
  defines "twoslash \<equiv> runTwoSlash generated (decorate_ts generated bridge)"
    and "out \<equiv> runSvelteTwoSlash svelte2tsx svelteTsxFiles runTwoSlash source"
  defines "g2o \<equiv> generated_to_original (check_removed_lines generated (code twoslash))"
    and "o2g \<equiv> original_to_generated (check_removed_lines source (code out))"
  defines "original \<equiv> \<lambda>l c. bridge \<lparr>line = nullish (map_get g2o l) (- 1) - N, character = c\<rparr>"
  defines "processed_position \<equiv> \<lambda>l c. \<lparr>line = nullish (map_get o2g l) (- 1), character = c\<rparr>"
  shows
    "staticQuickInfos out =
       map (\<lambda>r. r\<lparr>line := line (processed_position (line r) (character r)),
                   character := character (processed_position (line r) (character r)),
                   start := offset_at (processed_position (line r) (character r)) (code out)
                              (get_line_offsets (code out))\<rparr>)
         (filter (\<lambda>r. line r > 0 \<and> character r > 0 \<and> targetString r \<noteq> ''render'')
            (map (\<lambda>r. r\<lparr>line := line (original (line r) (character r)),
                        character := character (original (line r) (character r)),
                        start := offset_at (original (line r) (character r)) source
                                   (get_line_offsets source)\<rparr>)
               (staticQuickInfos twoslash))) \<and>
     errors out =
       map (\<lambda>r. r\<lparr>line := line (processed_position (line r) (character r)),
                   character := character (processed_position (line r) (character r)),
                   start := offset_at (processed_position (line r) (character r)) (code out)
                              (get_line_offsets (code out))\<rparr>)
         (filter (\<lambda>r. line r > 0 \<and> character r > 0)
            (map (\<lambda>r. r\<lparr>line := line (original (line r - N) (character r)),
                        character := character (original (line r - N) (character r)),
                        start := offset_at (original (line r - N) (character r)) source
                                   (get_line_offsets source)\<rparr>)
               (errors twoslash)))"
proof
  show "staticQuickInfos out =
       map (\<lambda>r. r\<lparr>line := line (processed_position (line r) (character r)),
                   character := character (processed_position (line r) (character r)),
                   start := offset_at (processed_position (line r) (character r)) (code out)
                              (get_line_offsets (code out))\<rparr>)
         (filter (\<lambda>r. line r > 0 \<and> character r > 0 \<and> targetString r \<noteq> ''render'')
            (map (\<lambda>r. r\<lparr>line := line (original (line r) (character r)),
                        character := character (original (line r) (character r)),
                        start := offset_at (original (line r) (character r)) source
                                   (get_line_offsets source)\<rparr>)
               (staticQuickInfos twoslash)))"
    unfolding out_def runSvelteTwoSlash_staticQuickInfos
    by (simp add: Let_def map_two_slash_info_eq map_to_generated_position_eq
        map_to_original_position_eq processed_position_def original_def o2g_def g2o_def
        twoslash_def generated_def bridge_def N_def out_def)
  show "errors out =
       map (\<lambda>r. r\<lparr>line := line (processed_position (line r) (character r)),
                   character := character (processed_position (line r) (character r)),
                   start := offset_at (processed_position (line r) (character r)) (code out)
                              (get_line_offsets (code out))\<rparr>)
         (filter (\<lambda>r. line r > 0 \<and> character r > 0)
            (map (\<lambda>r. r\<lparr>line := line (original (line r - N) (character r)),
                        character := character (original (line r - N) (character r)),
                        start := offset_at (original (line r - N) (character r)) source
                                   (get_line_offsets source)\<rparr>)
               (errors twoslash)))"
    unfolding out_def runSvelteTwoSlash_errors
    by (simp add: Let_def map_two_slash_info_eq map_to_generated_position_eq
        map_to_original_position_eq processed_position_def original_def o2g_def g2o_def
        twoslash_def generated_def bridge_def N_def out_def)
qed

end
